theory Spec2Isabelle
  imports Main "HOL-Library.Word" "HOL-Library.Dlist"
begin

section \<open>Values shared by the BLE peripheral manager and the channel router\<close>

text \<open>
  Python \<open>bytes\<close> are lists of 8-bit words. A Python \<open>str\<close> is
  represented by the list of its UTF-8 code units (\<open>string\<close>, a list of 8-bit
  characters): \<open>;\<close> and \<open>:\<close> are ASCII and never occur inside a
  multi-byte sequence, so splitting at them gives the same pieces as splitting the
  sequence of code points, and \<open>len(s) > 0\<close> holds of both at once.
\<close>

type_synonym byte = "8 word"
type_synonym bytes = "byte list"

text \<open>
  The exceptions (subclasses of \<open>Exception\<close>) that the code can meet:
  those of the language, \<open>OSError\<close> of the radio stack with its errno, and
  whatever an application callback raises.
\<close>

datatype error =
    ValueError
  | IndexError
  | UnicodeError
  | OSError int
  | AppError string

text \<open>The value of \<open>bytes(uuid)\<close> of a \<open>ubluetooth.UUID\<close>: 2, 4 or 16 bytes.\<close>

type_synonym UUID = bytes

text \<open>Objects that are shared by reference live in a store and are named by an address.\<close>

type_synonym ref = nat

text \<open>What each \<open>print\<close> of the source reports, without the formatting.\<close>

datatype msg =
    Advertising_started string
  | Advertising_stopped
  | Central_connected int
  | Central_disconnected int
  | Decoded string
  | Transmit_power_set int
  | Error_setting_TX_power error
  | Service_added UUID "int list list"
  | Notification_sent UUID bytes
  | Characteristic_not_found UUID
  | BLE_shut_down
  | Invalid_channel_type
  | Unhandled_write string
  | Failed_to_handle_data error

text \<open>
  The calls of the radio stack (\<open>ubluetooth.BLE\<close>) that the code makes, with
  their arguments. \<open>gap_advertise(None)\<close> is \<open>Gap_advertise None None None\<close>.
\<close>

datatype stack_call =
    Active bool
  | Config_txpower int
  | Gap_advertise "int option" "bytes option" "bytes option"
  | Gatts_register_services "(UUID \<times> (UUID \<times> int) list) list"
  | Gatts_notify int "int option" bytes
  | Gatts_read int

text \<open>The callbacks of the application that the code invokes, with their arguments.\<close>

datatype cb_call =
    Connect_cb int
  | Disconnect_cb int
  | Write_cb int ref bytes
  | Channel_cb int string

text \<open>
  The observable effects, in the order in which they happen: a line printed, a call
  into the radio stack, a callback invoked.
\<close>

datatype event =
    Print msg
  | Call stack_call
  | Invoke cb_call

section \<open>The channel router (\<open>ble_ranger.py\<close>)\<close>

subsection \<open>\<open>str.split(sep)\<close> and \<open>int(str)\<close>\<close>

text \<open>
  \<open>s.split(sep)\<close> with a one-character separator: the pieces between the
  separators, empty pieces included; the empty string gives one empty piece. The
  recursive call never returns the empty list, so the last case is never taken.
\<close>

fun str_split :: "char \<Rightarrow> string \<Rightarrow> string list" where
  "str_split sep [] = [ [] ]"
| "str_split sep (c # cs) =
     (if c = sep then [] # str_split sep cs
      else (case str_split sep cs of
              w # ws \<Rightarrow> (c # w) # ws
            | [] \<Rightarrow> [ [c] ]))"

text \<open>
  \<open>int(s)\<close> on a \<open>str\<close>, base 10, for ASCII text: white space around
  the number is dropped (tab, line feed, vertical tab, form feed, carriage return and
  space: the codes 9 to 13 and 32), then an optional sign, then decimal digits, where a
  single underscore may stand between two digits. \<open>None\<close> is
  \<open>ValueError\<close>. A code unit outside ASCII makes the token invalid here
  (CPython also accepts the decimal digits and spaces of other scripts, and refuses a
  token of more than 4300 digits); the theorems on the router speak about the outcome of
  \<open>py_int\<close> and the concrete inputs are plain ASCII.
\<close>

definition py_isspace :: "char \<Rightarrow> bool" where
  "py_isspace c = (let n = (of_char c :: nat) in (9 \<le> n \<and> n \<le> 13) \<or> n = 32)"

definition py_isdigit :: "char \<Rightarrow> bool" where
  "py_isdigit c = (let n = (of_char c :: nat) in 48 \<le> n \<and> n \<le> 57)"

definition digit_of :: "char \<Rightarrow> int" where
  "digit_of c = int (of_char c) - 48"

fun parse_digits :: "int \<Rightarrow> string \<Rightarrow> int option" where
  "parse_digits acc [] = Some acc"
| "parse_digits acc (c # cs) =
     (if py_isdigit c then parse_digits (acc * 10 + digit_of c) cs
      else if c = CHR ''_'' then
        (case cs of
           [] \<Rightarrow> None
         | d # ds \<Rightarrow> if py_isdigit d then parse_digits (acc * 10 + digit_of d) ds else None)
      else None)"

definition parse_unsigned :: "string \<Rightarrow> int option" where
  "parse_unsigned s =
     (case s of
        [] \<Rightarrow> None
      | d # ds \<Rightarrow> if py_isdigit d then parse_digits (digit_of d) ds else None)"

definition str_strip :: "string \<Rightarrow> string" where
  "str_strip s = rev (dropWhile py_isspace (rev (dropWhile py_isspace s)))"

definition py_int :: "string \<Rightarrow> int option" where
  "py_int s =
     (case str_strip s of
        [] \<Rightarrow> None
      | c # cs \<Rightarrow>
          if c = CHR ''-'' then map_option uminus (parse_unsigned cs)
          else if c = CHR ''+'' then parse_unsigned cs
          else parse_unsigned (c # cs))"

subsection \<open>\<open>BLERanger\<close>: the channel registry and \<open>write_handler\<close>\<close>

text \<open>
  A channel callback is a function of the application: it is called with the channel and
  the data, it may change the state \<open>'x\<close> of the application, and it returns
  normally (\<open>None\<close>) or raises (\<open>Some e\<close>). It does not call back into the
  router.
\<close>

type_synonym 'x channel_cb = "int \<Rightarrow> string \<Rightarrow> 'x \<Rightarrow> error option \<times> 'x"

record 'x BLERanger =
  channel_callbacks :: "int \<rightharpoonup> 'x channel_cb"
  app :: "'x"
  out :: "event list"

definition emit :: "event \<Rightarrow> 'x BLERanger \<Rightarrow> 'x BLERanger" where
  "emit ev r = r\<lparr>out := out r @ [ev]\<rparr>"

definition register_channel :: "int \<Rightarrow> 'x channel_cb \<Rightarrow> 'x BLERanger \<Rightarrow> 'x BLERanger" where
  "register_channel channel callback r =
     r\<lparr>channel_callbacks := (channel_callbacks r)(channel \<mapsto> callback)\<rparr>"

text \<open>
  The first \<open>try\<close> block of the loop body, on \<open>rcv = command.split(":")\<close>:
  \<open>channel = int(rcv[0])\<close>, then \<open>data = rcv[1]\<close>.
\<close>

definition parse_command :: "string list \<Rightarrow> error + (int \<times> string)" where
  "parse_command rcv =
     (case rcv of
        [] \<Rightarrow> Inl IndexError
      | tok # rest \<Rightarrow>
          (case py_int tok of
             None \<Rightarrow> Inl ValueError
           | Some channel \<Rightarrow>
               (case rest of
                  [] \<Rightarrow> Inl IndexError
                | data # _ \<Rightarrow> Inr (channel, data))))"

text \<open>
  The body of the loop for one command. The Boolean tells whether the loop goes on
  (\<open>False\<close> is \<open>break\<close>).
\<close>

definition handle_command :: "string \<Rightarrow> 'x BLERanger \<Rightarrow> bool \<times> 'x BLERanger" where
  "handle_command command r =
     (if length command > 0 then
        (case parse_command (str_split CHR '':'' command) of
           Inl e \<Rightarrow> (False, emit (Print Invalid_channel_type) r)
         | Inr (channel, data) \<Rightarrow>
             (case channel_callbacks r channel of
                Some callback \<Rightarrow>
                  (let r1 = emit (Invoke (Channel_cb channel data)) r in
                   case callback channel data (app r1) of
                     (None, x) \<Rightarrow> (True, r1\<lparr>app := x\<rparr>)
                   | (Some e, x) \<Rightarrow> (False, emit (Print (Failed_to_handle_data e)) (r1\<lparr>app := x\<rparr>)))
              | None \<Rightarrow> (True, emit (Print (Unhandled_write command)) r)))
      else (True, r))"

fun handle_commands :: "string list \<Rightarrow> 'x BLERanger \<Rightarrow> 'x BLERanger" where
  "handle_commands [] r = r"
| "handle_commands (command # commands) r =
     (case handle_command command r of
        (True, r') \<Rightarrow> handle_commands commands r'
      | (False, r') \<Rightarrow> r')"

definition write_handler :: "string \<Rightarrow> 'x BLERanger \<Rightarrow> 'x BLERanger" where
  "write_handler v r = handle_commands (str_split CHR '';'' v) r"

text \<open>The callbacks that a run invoked, in order.\<close>

fun invoked :: "event list \<Rightarrow> cb_call list" where
  "invoked [] = []"
| "invoked (Invoke c # evs) = c # invoked evs"
| "invoked (_ # evs) = invoked evs"

text \<open>A callback that only returns, one that always raises, and a router to run them in.\<close>

definition cb_ok :: "unit channel_cb" where
  "cb_ok channel data x = (None, x)"

definition cb_fail :: "unit channel_cb" where
  "cb_fail channel data x = (Some (AppError data), x)"

definition ranger0 :: "unit BLERanger" where
  "ranger0 = \<lparr>channel_callbacks = Map.empty, app = (), out = []\<rparr>"

section \<open>The BLE peripheral manager (\<open>ble_base.py\<close>)\<close>

subsection \<open>Bytes and text\<close>

text \<open>
  \<open>bytearray([n, ...])\<close> takes integers in \<open>range(256)\<close> and raises
  \<open>ValueError\<close> on any other (MicroPython's build of \<open>bytearray\<close> keeps the
  low eight bits instead; the two agree on every list within the range).
\<close>

definition bytearray :: "nat list \<Rightarrow> error + bytes" where
  "bytearray xs = (if list_all (\<lambda>x. x < 256) xs then Inr (map of_nat xs) else Inl ValueError)"

text \<open>\<open>s.encode("utf-8")\<close>: the code units of the \<open>str\<close>, as bytes.\<close>

definition encode :: "string \<Rightarrow> bytes" where
  "encode s = map (\<lambda>c. of_nat (of_char c)) s"

text \<open>
  \<open>b.decode()\<close> is strict UTF-8: it raises \<open>UnicodeError\<close> (\<open>None\<close>
  here) unless the bytes are a sequence of well-formed UTF-8 byte sequences (the table of
  RFC 3629: no overlong forms, no surrogates, nothing above U+10FFFF).
\<close>

definition cont :: "byte \<Rightarrow> bool" where
  "cont b = (0x80 \<le> b \<and> b \<le> 0xBF)"

fun utf8_valid :: "bytes \<Rightarrow> bool" where
  "utf8_valid [] = True"
| "utf8_valid (b # bs) =
     (if b \<le> 0x7F then utf8_valid bs
      else if 0xC2 \<le> b \<and> b \<le> 0xDF then
        (case bs of c1 # r \<Rightarrow> cont c1 \<and> utf8_valid r | _ \<Rightarrow> False)
      else if b = 0xE0 then
        (case bs of c1 # c2 # r \<Rightarrow> 0xA0 \<le> c1 \<and> c1 \<le> 0xBF \<and> cont c2 \<and> utf8_valid r | _ \<Rightarrow> False)
      else if b = 0xED then
        (case bs of c1 # c2 # r \<Rightarrow> 0x80 \<le> c1 \<and> c1 \<le> 0x9F \<and> cont c2 \<and> utf8_valid r | _ \<Rightarrow> False)
      else if 0xE1 \<le> b \<and> b \<le> 0xEF then
        (case bs of c1 # c2 # r \<Rightarrow> cont c1 \<and> cont c2 \<and> utf8_valid r | _ \<Rightarrow> False)
      else if b = 0xF0 then
        (case bs of c1 # c2 # c3 # r \<Rightarrow>
             0x90 \<le> c1 \<and> c1 \<le> 0xBF \<and> cont c2 \<and> cont c3 \<and> utf8_valid r
         | _ \<Rightarrow> False)
      else if 0xF1 \<le> b \<and> b \<le> 0xF3 then
        (case bs of c1 # c2 # c3 # r \<Rightarrow> cont c1 \<and> cont c2 \<and> cont c3 \<and> utf8_valid r
         | _ \<Rightarrow> False)
      else if b = 0xF4 then
        (case bs of c1 # c2 # c3 # r \<Rightarrow>
             0x80 \<le> c1 \<and> c1 \<le> 0x8F \<and> cont c2 \<and> cont c3 \<and> utf8_valid r
         | _ \<Rightarrow> False)
      else False)"

definition decode :: "bytes \<Rightarrow> string option" where
  "decode v = (if utf8_valid v then Some (map (\<lambda>b. char_of (unat b)) v) else None)"

subsection \<open>The radio stack and the callbacks\<close>

text \<open>
  The radio stack and the application are outside the repository. Their state is the
  environment \<open>'e\<close>; the stack is a parameter of the model, one function for each
  method of \<open>ubluetooth.BLE\<close> that the code calls. A call takes the environment
  and gives the changed environment, with the value returned or the exception raised.
\<close>

record 'e stack =
  st_active :: "bool \<Rightarrow> 'e \<Rightarrow> error option \<times> 'e"
  st_config :: "int \<Rightarrow> 'e \<Rightarrow> error option \<times> 'e"
  st_gap_advertise :: "int option \<Rightarrow> bytes option \<Rightarrow> bytes option \<Rightarrow> 'e \<Rightarrow> error option \<times> 'e"
  st_gatts_register_services ::
    "(UUID \<times> (UUID \<times> int) list) list \<Rightarrow> 'e \<Rightarrow> (error + int list list) \<times> 'e"
  st_gatts_notify :: "int \<Rightarrow> int option \<Rightarrow> bytes \<Rightarrow> 'e \<Rightarrow> error option \<times> 'e"
  st_gatts_read :: "int \<Rightarrow> 'e \<Rightarrow> (error + bytes) \<times> 'e"

text \<open>
  A callback is called with its arguments, may change the environment, and returns
  normally (\<open>None\<close>) or raises (\<open>Some e\<close>). It does not call back into the
  manager and does not change the objects of the manager.
\<close>

type_synonym 'e conn_cb = "int \<Rightarrow> 'e \<Rightarrow> error option \<times> 'e"
type_synonym 'e write_cb = "int \<Rightarrow> ref \<Rightarrow> bytes \<Rightarrow> 'e \<Rightarrow> error option \<times> 'e"

subsection \<open>The classes\<close>

record Advertising =
  name :: string
  service_uuids :: "UUID list"

record 'e BLECharacteristic =
  char_uuid :: UUID
  flags :: int
  write_callback :: "'e write_cb option"
  handle :: "int option"
  char_value :: bytes

record BLEService =
  service_uuid :: UUID
  characteristics :: "ref list"

text \<open>
  The manager with the objects it refers to. Characteristics and services are shared by
  reference between the application, the service list and the handle registry, so they
  live in the stores \<open>chars\<close> and \<open>svcs\<close>. The connection set is a list
  without duplicates; its order stands for the order, whichever it is, in which Python
  iterates over the set. \<open>trace\<close> records the observable effects.
\<close>

record 'e BLEManager =
  env :: "'e"
  trace :: "event list"
  chars :: "ref \<Rightarrow> 'e BLECharacteristic"
  svcs :: "ref \<Rightarrow> BLEService"
  advertising :: Advertising
  tx_power :: int
  services :: "ref list"
  characteristic_handles :: "int \<rightharpoonup> ref"
  connections :: "int dlist"
  connect_callback :: "'e conn_cb option"
  disconnect_callback :: "'e conn_cb option"

definition observe :: "event \<Rightarrow> 'e BLEManager \<Rightarrow> 'e BLEManager" where
  "observe ev s = s\<lparr>trace := trace s @ [ev]\<rparr>"


definition ble_config :: "'e stack \<Rightarrow> int \<Rightarrow> 'e BLEManager \<Rightarrow> error option \<times> 'e BLEManager" where
  "ble_config stk txpower s =
     (case st_config stk txpower (env s) of
        (res, e') \<Rightarrow> (res, observe (Call (Config_txpower txpower)) (s\<lparr>env := e'\<rparr>)))"

definition ble_gap_advertise ::
  "'e stack \<Rightarrow> int option \<Rightarrow> bytes option \<Rightarrow> bytes option \<Rightarrow> 'e BLEManager
     \<Rightarrow> error option \<times> 'e BLEManager" where
  "ble_gap_advertise stk interval adv_data resp_data s =
     (case st_gap_advertise stk interval adv_data resp_data (env s) of
        (res, e') \<Rightarrow>
          (res, observe (Call (Gap_advertise interval adv_data resp_data)) (s\<lparr>env := e'\<rparr>)))"

definition ble_gatts_register_services ::
  "'e stack \<Rightarrow> (UUID \<times> (UUID \<times> int) list) list \<Rightarrow> 'e BLEManager
     \<Rightarrow> (error + int list list) \<times> 'e BLEManager" where
  "ble_gatts_register_services stk defs s =
     (case st_gatts_register_services stk defs (env s) of
        (res, e') \<Rightarrow> (res, observe (Call (Gatts_register_services defs)) (s\<lparr>env := e'\<rparr>)))"

definition ble_gatts_notify ::
  "'e stack \<Rightarrow> int \<Rightarrow> int option \<Rightarrow> bytes \<Rightarrow> 'e BLEManager \<Rightarrow> error option \<times> 'e BLEManager" where
  "ble_gatts_notify stk conn_handle h v s =
     (case st_gatts_notify stk conn_handle h v (env s) of
        (res, e') \<Rightarrow> (res, observe (Call (Gatts_notify conn_handle h v)) (s\<lparr>env := e'\<rparr>)))"

definition ble_gatts_read ::
  "'e stack \<Rightarrow> int \<Rightarrow> 'e BLEManager \<Rightarrow> (error + bytes) \<times> 'e BLEManager" where
  "ble_gatts_read stk h s =
     (case st_gatts_read stk h (env s) of
        (res, e') \<Rightarrow> (res, observe (Call (Gatts_read h)) (s\<lparr>env := e'\<rparr>)))"

text \<open>Calling a callback: the call is recorded, then the callback acts on the environment.\<close>

definition run_cb ::
  "cb_call \<Rightarrow> ('e \<Rightarrow> error option \<times> 'e) \<Rightarrow> 'e BLEManager \<Rightarrow> error option \<times> 'e BLEManager" where
  "run_cb c f s =
     (case f (env s) of
        (res, e') \<Rightarrow> (res, (observe (Invoke c) s)\<lparr>env := e'\<rparr>))"

subsection \<open>\<open>Advertising\<close>\<close>

definition add_service_uuid :: "UUID \<Rightarrow> Advertising \<Rightarrow> Advertising" where
  "add_service_uuid uuid a = a\<lparr>service_uuids := service_uuids a @ [uuid]\<rparr>"

text \<open>The loop of \<open>_build_adv_payload\<close> over the service UUIDs.\<close>

fun add_uuid_structures :: "UUID list \<Rightarrow> bytes \<Rightarrow> error + bytes" where
  "add_uuid_structures [] payload = Inr payload"
| "add_uuid_structures (uuid_bytes # uuids) payload =
     (case bytearray [length uuid_bytes + 1, 0x07] of
        Inl e \<Rightarrow> Inl e
      | Inr header \<Rightarrow> add_uuid_structures uuids (payload @ header @ uuid_bytes))"

definition build_adv_payload :: "Advertising \<Rightarrow> error + bytes" where
  "build_adv_payload a =
     (case bytearray [2, 0x01, 0x06] of
        Inl e \<Rightarrow> Inl e
      | Inr fl \<Rightarrow> add_uuid_structures (service_uuids a) ([] @ fl))"

definition build_scan_response :: "Advertising \<Rightarrow> error + bytes" where
  "build_scan_response a =
     (let name_bytes = encode (name a) in
      case bytearray [length name_bytes + 1, 0x09] of
        Inl e \<Rightarrow> Inl e
      | Inr header \<Rightarrow> Inr ([] @ header @ name_bytes))"

definition start :: "'e stack \<Rightarrow> int \<Rightarrow> 'e BLEManager \<Rightarrow> error option \<times> 'e BLEManager" where
  "start stk interval s =
     (case build_adv_payload (advertising s) of
        Inl e \<Rightarrow> (Some e, s)
      | Inr adv_payload \<Rightarrow>
          (case build_scan_response (advertising s) of
             Inl e \<Rightarrow> (Some e, s)
           | Inr scan_response \<Rightarrow>
               (case ble_gap_advertise stk (Some interval) (Some adv_payload) (Some scan_response) s of
                  (Some e, s1) \<Rightarrow> (Some e, s1)
                | (None, s1) \<Rightarrow>
                    (None, observe (Print (Advertising_started (name (advertising s1)))) s1))))"


subsection \<open>\<open>BLEManager\<close>\<close>

text \<open>The fields as \<open>__init__\<close> assigns them, for a given store and environment.\<close>

definition new_manager ::
  "string \<Rightarrow> int \<Rightarrow> (ref \<Rightarrow> 'e BLECharacteristic) \<Rightarrow> (ref \<Rightarrow> BLEService) \<Rightarrow> 'e \<Rightarrow> 'e BLEManager" where
  "new_manager nm txpower cstore sstore e =
     \<lparr>env = e, trace = [], chars = cstore, svcs = sstore,
      advertising = \<lparr>name = nm, service_uuids = []\<rparr>, tx_power = txpower,
      services = [], characteristic_handles = Map.empty, connections = Dlist.empty,
      connect_callback = None, disconnect_callback = None\<rparr>"

definition set_advertising_service :: "UUID \<Rightarrow> 'e BLEManager \<Rightarrow> 'e BLEManager" where
  "set_advertising_service uuid s = s\<lparr>advertising := add_service_uuid uuid (advertising s)\<rparr>"

definition register_connect_callback :: "'e conn_cb \<Rightarrow> 'e BLEManager \<Rightarrow> 'e BLEManager" where
  "register_connect_callback callback s = s\<lparr>connect_callback := Some callback\<rparr>"

definition register_disconnect_callback :: "'e conn_cb \<Rightarrow> 'e BLEManager \<Rightarrow> 'e BLEManager" where
  "register_disconnect_callback callback s = s\<lparr>disconnect_callback := Some callback\<rparr>"

text \<open>
  The events that the stack delivers to \<open>_irq_handler\<close>, with their data: event
  1 with \<open>(conn_handle, \<dots>)\<close>, event 2 with \<open>(conn_handle, \<dots>)\<close>, event 3
  with \<open>(conn_handle, attr_handle)\<close>, and any other event, for which no branch of
  the handler is taken.
\<close>

datatype irq =
    IRQ_CENTRAL_CONNECT int
  | IRQ_CENTRAL_DISCONNECT int
  | IRQ_GATTS_WRITE int int
  | IRQ_OTHER

text \<open>
  The result of a method is the exception that leaves it, if any, and the state at that
  moment: what was changed before a \<open>raise\<close> stays changed.
\<close>

definition irq_handler :: "'e stack \<Rightarrow> irq \<Rightarrow> 'e BLEManager \<Rightarrow> error option \<times> 'e BLEManager" where
  "irq_handler stk ev s =
     (case ev of
        IRQ_CENTRAL_CONNECT conn_handle \<Rightarrow>
          (let s1 = observe (Print (Central_connected conn_handle))
                      (s\<lparr>connections := Dlist.insert conn_handle (connections s)\<rparr>) in
           case connect_callback s1 of
             None \<Rightarrow> (None, s1)
           | Some callback \<Rightarrow> run_cb (Connect_cb conn_handle) (callback conn_handle) s1)
      | IRQ_CENTRAL_DISCONNECT conn_handle \<Rightarrow>
          (let s1 = observe (Print (Central_disconnected conn_handle))
                      (s\<lparr>connections := Dlist.remove conn_handle (connections s)\<rparr>) in
           case (case disconnect_callback s1 of
                   None \<Rightarrow> (None, s1)
                 | Some callback \<Rightarrow> run_cb (Disconnect_cb conn_handle) (callback conn_handle) s1) of
             (Some e, s2) \<Rightarrow> (Some e, s2)
           | (None, s2) \<Rightarrow> start stk 100 s2)
      | IRQ_GATTS_WRITE conn_handle attr_handle \<Rightarrow>
          (case ble_gatts_read stk attr_handle s of
             (Inl e, s1) \<Rightarrow> (Some e, s1)
           | (Inr v, s1) \<Rightarrow>
               (case decode v of
                  None \<Rightarrow> (Some UnicodeError, s1)
                | Some text \<Rightarrow>
                    (let s2 = observe (Print (Decoded text)) s1 in
                     case characteristic_handles s2 attr_handle of
                       None \<Rightarrow> (None, s2)
                     | Some c \<Rightarrow>
                         (case write_callback (chars s2 c) of
                            None \<Rightarrow> (None, s2)
                          | Some callback \<Rightarrow>
                              run_cb (Write_cb conn_handle c v) (callback conn_handle c v) s2))))
      | IRQ_OTHER \<Rightarrow> (None, s))"

definition set_tx_power :: "'e stack \<Rightarrow> int \<Rightarrow> 'e BLEManager \<Rightarrow> 'e BLEManager" where
  "set_tx_power stk txpower s =
     (case ble_config stk txpower s of
        (None, s1) \<Rightarrow> observe (Print (Transmit_power_set txpower)) s1
      | (Some e, s1) \<Rightarrow> observe (Print (Error_setting_TX_power e)) s1)"

text \<open>
  The loop of \<open>add_service\<close> over \<open>zip(service.characteristics, handles[0])\<close>:
  the characteristic object gets the handle, the registry gets the characteristic.
\<close>

fun assign_handles :: "(ref \<times> int) list \<Rightarrow> 'e BLEManager \<Rightarrow> 'e BLEManager" where
  "assign_handles [] s = s"
| "assign_handles ((c, h) # pairs) s =
     assign_handles pairs
       (s\<lparr>chars := (chars s)(c := (chars s c)\<lparr>handle := Some h\<rparr>),
          characteristic_handles := (characteristic_handles s)(h \<mapsto> c)\<rparr>)"

definition add_service :: "'e stack \<Rightarrow> ref \<Rightarrow> 'e BLEManager \<Rightarrow> error option \<times> 'e BLEManager" where
  "add_service stk service s =
     (let char_defs = map (\<lambda>c. (char_uuid (chars s c), flags (chars s c)))
                          (characteristics (svcs s service));
          s1 = s\<lparr>services := services s @ [service]\<rparr>;
          service_def = (service_uuid (svcs s1 service), char_defs) in
      case ble_gatts_register_services stk [service_def] s1 of
        (Inl e, s2) \<Rightarrow> (Some e, s2)
      | (Inr handles, s2) \<Rightarrow>
          (case handles of
             [] \<Rightarrow> (Some IndexError, s2)
           | hs # _ \<Rightarrow>
               (None, observe (Print (Service_added (service_uuid (svcs s2 service)) handles))
                        (assign_handles (zip (characteristics (svcs s2 service)) hs) s2))))"

text \<open>The loop of \<open>notify\<close> over the connection set.\<close>

fun notify_connections ::
  "'e stack \<Rightarrow> int list \<Rightarrow> int option \<Rightarrow> bytes \<Rightarrow> 'e BLEManager \<Rightarrow> error option \<times> 'e BLEManager" where
  "notify_connections stk [] h v s = (None, s)"
| "notify_connections stk (conn_handle # conns) h v s =
     (case ble_gatts_notify stk conn_handle h v s of
        (Some e, s1) \<Rightarrow> (Some e, s1)
      | (None, s1) \<Rightarrow> notify_connections stk conns h v s1)"

text \<open>
  The loop over the characteristics of one service and the loop over the services. The
  Boolean tells whether the method has returned from inside the loop.
\<close>

fun notify_chars ::
  "'e stack \<Rightarrow> UUID \<Rightarrow> bytes \<Rightarrow> ref list \<Rightarrow> 'e BLEManager \<Rightarrow> (error + bool) \<times> 'e BLEManager" where
  "notify_chars stk uuid v [] s = (Inr False, s)"
| "notify_chars stk uuid v (c # cs) s =
     (if char_uuid (chars s c) = uuid then
        (let s1 = s\<lparr>chars := (chars s)(c := (chars s c)\<lparr>char_value := v\<rparr>)\<rparr> in
         case notify_connections stk (list_of_dlist (connections s1)) (handle (chars s1 c)) v s1 of
           (Some e, s2) \<Rightarrow> (Inl e, s2)
         | (None, s2) \<Rightarrow> (Inr True, observe (Print (Notification_sent uuid v)) s2))
      else notify_chars stk uuid v cs s)"

fun notify_services ::
  "'e stack \<Rightarrow> UUID \<Rightarrow> bytes \<Rightarrow> ref list \<Rightarrow> 'e BLEManager \<Rightarrow> (error + bool) \<times> 'e BLEManager" where
  "notify_services stk uuid v [] s = (Inr False, s)"
| "notify_services stk uuid v (service # rest) s =
     (case notify_chars stk uuid v (characteristics (svcs s service)) s of
        (Inl e, s1) \<Rightarrow> (Inl e, s1)
      | (Inr True, s1) \<Rightarrow> (Inr True, s1)
      | (Inr False, s1) \<Rightarrow> notify_services stk uuid v rest s1)"

definition notify :: "'e stack \<Rightarrow> UUID \<Rightarrow> bytes \<Rightarrow> 'e BLEManager \<Rightarrow> error option \<times> 'e BLEManager" where
  "notify stk uuid v s =
     (case notify_services stk uuid v (services s) s of
        (Inl e, s1) \<Rightarrow> (Some e, s1)
      | (Inr True, s1) \<Rightarrow> (None, s1)
      | (Inr False, s1) \<Rightarrow> (None, observe (Print (Characteristic_not_found uuid)) s1))"


text \<open>
  \<open>on_write\<close> of \<open>BLERanger.__init__\<close>, the write callback of the RX
  characteristic: the environment of the manager is then the router.
\<close>

definition on_write :: "('x BLERanger) write_cb" where
  "on_write conn_handle c v r =
     (case decode v of
        None \<Rightarrow> (Some UnicodeError, r)
      | Some text \<Rightarrow> (None, write_handler text r))"

text \<open>The stack calls that a run made, in order.\<close>

fun stack_calls :: "event list \<Rightarrow> stack_call list" where
  "stack_calls [] = []"
| "stack_calls (Call c # evs) = c # stack_calls evs"
| "stack_calls (_ # evs) = stack_calls evs"

subsection \<open>Reading a payload back, and fixtures\<close>

text \<open>
  The reading of an advertising payload as AD structures, as a receiver does it. This is
  not code of the repository: it follows the spec's description of the encoding,
  \<open>[length][type][value]\<close> where \<open>length\<close> counts the type byte and the
  value bytes. It gives the list of (type, value) pairs, and \<open>None\<close> for a
  payload that is not a sequence of such structures.
\<close>

fun parse_ad_structures :: "bytes \<Rightarrow> (byte \<times> bytes) list option" where
  "parse_ad_structures [] = Some []"
| "parse_ad_structures (l # rest) =
     (case rest of
        [] \<Rightarrow> None
      | t # vs \<Rightarrow>
          if unat l = 0 \<or> length vs < unat l - 1 then None
          else map_option ((#) (t, take (unat l - 1) vs))
                 (parse_ad_structures (drop (unat l - 1) vs)))"

text \<open>The UUID section that the spec describes: \<open>[17] 07\<close> and the UUID, for each UUID.\<close>

definition uuid_structures :: "UUID list \<Rightarrow> bytes" where
  "uuid_structures uuids = concat (map (\<lambda>u. [17, 0x07] @ u) uuids)"

text \<open>\<open>bytes(UUID("12345678-1234-5678-1234-56789abcdef0"))\<close>, little-endian.\<close>

definition uuid_example :: UUID where
  "uuid_example =
     [0xF0, 0xDE, 0xBC, 0x9A, 0x78, 0x56, 0x34, 0x12, 0x78, 0x56, 0x34, 0x12, 0x78, 0x56, 0x34, 0x12]"

text \<open>
  A radio stack in which every call succeeds: reads return \<open>written\<close>, the
  registration of services returns \<open>handles\<close>. And one that rejects the
  registration of services.
\<close>

definition stack_ok :: "bytes \<Rightarrow> int list list \<Rightarrow> 'e stack" where
  "stack_ok written handles =
     \<lparr>st_active = (\<lambda>b e. (None, e)),
      st_config = (\<lambda>p e. (None, e)),
      st_gap_advertise = (\<lambda>i a r e. (None, e)),
      st_gatts_register_services = (\<lambda>d e. (Inr handles, e)),
      st_gatts_notify = (\<lambda>c h v e. (None, e)),
      st_gatts_read = (\<lambda>h e. (Inr written, e))\<rparr>"

definition stack_reject :: "'e stack" where
  "stack_reject = (stack_ok [] [])\<lparr>st_gatts_register_services := (\<lambda>d e. (Inl (OSError 12), e))\<rparr>"

text \<open>
  The objects of the example at the end of \<open>ble_base.py\<close>: a service with two
  characteristics, as their constructors leave them, at the addresses 0 and 1 of a store,
  and the service at address 0 of its store.
\<close>

definition new_characteristic :: "UUID \<Rightarrow> int \<Rightarrow> 'e write_cb option \<Rightarrow> 'e BLECharacteristic" where
  "new_characteristic uuid fl callback =
     \<lparr>char_uuid = uuid, flags = fl, write_callback = callback, handle = None, char_value = []\<rparr>"

definition new_service :: "UUID \<Rightarrow> BLEService" where
  "new_service uuid = \<lparr>service_uuid = uuid, characteristics = []\<rparr>"

definition add_characteristic :: "ref \<Rightarrow> BLEService \<Rightarrow> BLEService" where
  "add_characteristic c svc = svc\<lparr>characteristics := characteristics svc @ [c]\<rparr>"

definition uuid_char1 :: UUID where
  "uuid_char1 = 0xF1 # tl uuid_example"

definition uuid_char2 :: UUID where
  "uuid_char2 = 0xF2 # tl uuid_example"

definition example_chars :: "'e write_cb option \<Rightarrow> ref \<Rightarrow> 'e BLECharacteristic" where
  "example_chars callback =
     (\<lambda>r. new_characteristic [] 0 None)
       (0 := new_characteristic uuid_char1 10 callback,
        1 := new_characteristic uuid_char2 18 None)"

definition example_svcs :: "ref \<Rightarrow> BLEService" where
  "example_svcs = (\<lambda>r. add_characteristic 1 (add_characteristic 0 (new_service uuid_example)))"

definition example_manager :: "'e write_cb option \<Rightarrow> 'e \<Rightarrow> 'e BLEManager" where
  "example_manager callback e = new_manager ''PicoW-BLE'' 4 (example_chars callback) example_svcs e"

text \<open>Callbacks that raise.\<close>

definition conn_cb_fail :: "'e conn_cb" where
  "conn_cb_fail conn_handle e = (Some (AppError ''callback''), e)"

definition write_cb_fail :: "'e write_cb" where
  "write_cb_fail conn_handle c v e = (Some (AppError ''callback''), e)"

text \<open>
  For the statements on \<open>notify\<close>: the characteristics of all registered services,
  in the order of the two loops; the first of them with a given UUID, which is the one
  that \<open>notify\<close> locates; and the body of the \<open>if\<close> in \<open>notify\<close> for
  the characteristic found.
\<close>

definition all_characteristics :: "'e BLEManager \<Rightarrow> ref list" where
  "all_characteristics s = concat (map (\<lambda>service. characteristics (svcs s service)) (services s))"

definition find_characteristic :: "UUID \<Rightarrow> 'e BLEManager \<Rightarrow> ref option" where
  "find_characteristic uuid s = List.find (\<lambda>c. char_uuid (chars s c) = uuid) (all_characteristics s)"

definition send_notifications ::
  "'e stack \<Rightarrow> UUID \<Rightarrow> bytes \<Rightarrow> ref \<Rightarrow> 'e BLEManager \<Rightarrow> (error + bool) \<times> 'e BLEManager" where
  "send_notifications stk uuid v c s =
     (let s1 = s\<lparr>chars := (chars s)(c := (chars s c)\<lparr>char_value := v\<rparr>)\<rparr> in
      case notify_connections stk (list_of_dlist (connections s1)) (handle (chars s1 c)) v s1 of
        (Some e, s2) \<Rightarrow> (Inl e, s2)
      | (None, s2) \<Rightarrow> (Inr True, observe (Print (Notification_sent uuid v)) s2))"

text \<open>The example manager with its service registered and the centrals 5 and 9 connected.\<close>

definition example_connected :: "unit BLEManager" where
  "example_connected =
     snd (irq_handler (stack_ok [] [ [10, 12] ]) (IRQ_CENTRAL_CONNECT 9)
       (snd (irq_handler (stack_ok [] [ [10, 12] ]) (IRQ_CENTRAL_CONNECT 5)
          (snd (add_service (stack_ok [] [ [10, 12] ]) 0 (example_manager None ()))))))"

text \<open>A connection callback that only returns, and a stack whose reads fail.\<close>

definition conn_cb_ok :: "'e conn_cb" where
  "conn_cb_ok conn_handle e = (None, e)"

definition stack_read_fails :: "'e stack" where
  "stack_read_fails = (stack_ok [] [])\<lparr>st_gatts_read := (\<lambda>h e. (Inl (OSError 5), e))\<rparr>"

text \<open>
  A stack whose \<open>gatts_notify\<close> raises. And a stack whose state is whether the
  radio is on: \<open>active\<close> sets it, and \<open>gap_advertise\<close> is refused with
  \<open>OSError(19)\<close> while the radio is off.
\<close>

definition stack_notify_fails :: "'e stack" where
  "stack_notify_fails = (stack_ok [] [])\<lparr>st_gatts_notify := (\<lambda>c h v e. (Some (OSError 128), e))\<rparr>"


section \<open>Properties of the channel router\<close>

subsection \<open>Splitting\<close>

lemma str_split_not_Nil: "str_split sep s \<noteq> []"
  by (induction s) (auto split: list.splits)

lemma str_split_no_sep: "sep \<notin> set s \<Longrightarrow> str_split sep s = [s]"
  by (induction s) auto

lemma str_split_first:
  "sep \<notin> set tok \<Longrightarrow> str_split sep (tok @ sep # rest) = tok # str_split sep rest"
  by (induction tok) auto

lemma hd_str_split: "hd (str_split sep s) = takeWhile (\<lambda>c. c \<noteq> sep) s"
  by (induction s) (auto split: list.splits simp: str_split_not_Nil)

lemma str_split_second:
  assumes "sep \<notin> set tok"
  shows "\<exists>others. str_split sep (tok @ sep # rest) = tok # takeWhile (\<lambda>c. c \<noteq> sep) rest # others"
proof -
  obtain w ws where w: "str_split sep rest = w # ws"
    using str_split_not_Nil [of sep rest] by (cases "str_split sep rest") auto
  have "w = takeWhile (\<lambda>c. c \<noteq> sep) rest"
    using hd_str_split [of sep rest] w by simp
  with assms w show ?thesis by (simp add: str_split_first)
qed

lemma invoked_append: "invoked (xs @ ys) = invoked xs @ invoked ys"
  by (induction xs rule: invoked.induct) auto

lemmas py_int_eval = py_int_def str_strip_def parse_unsigned_def py_isdigit_def
  py_isspace_def digit_of_def

subsection \<open>The data of a command\<close>

text \<open>
  C2, as the spec states it, fails on the code: \<open>write_handler\<close> splits the
  segment at every \<open>:\<close> and takes the second piece, so on the batch
  \<open>1:a:b\<close> the callback of channel 1 receives \<open>a\<close>, and no callback
  receives \<open>a:b\<close>.
\<close>

theorem write_handler_data_not_remainder:
  "invoked (out (write_handler ''1:a:b'' (register_channel 1 cb_ok ranger0))) = [Channel_cb 1 ''a'']
   \<and> Channel_cb 1 ''a:b'' \<notin> set (invoked (out (write_handler ''1:a:b'' (register_channel 1 cb_ok ranger0))))"
  by (simp add: write_handler_def handle_command_def parse_command_def py_int_eval
        register_channel_def ranger0_def cb_ok_def emit_def)

text \<open>
  C2, amended: for a segment \<open>tok:rest\<close> whose token \<open>tok\<close> parses as
  the integer \<open>channel\<close>, with a callback registered for that channel, the
  callback is invoked once, with the channel and with the part of \<open>rest\<close>
  before its first \<open>:\<close> (all of \<open>rest\<close> when it has none), and the
  application is left as the callback leaves it.
\<close>

theorem handle_command_data_second_field:
  assumes "CHR '':'' \<notin> set tok" and "py_int tok = Some channel"
    and "channel_callbacks r channel = Some callback"
    and "data = takeWhile (\<lambda>c. c \<noteq> CHR '':'') rest"
  shows "invoked (out (snd (handle_command (tok @ CHR '':'' # rest) r)))
           = invoked (out r) @ [Channel_cb channel data]
       \<and> app (snd (handle_command (tok @ CHR '':'' # rest) r)) = snd (callback channel data (app r))"
proof -
  obtain others where f: "str_split CHR '':'' (tok @ CHR '':'' # rest) = tok # data # others"
    using str_split_second [OF assms(1), of rest] assms(4) by auto
  show ?thesis
    using assms(2,3) f
    by (cases "callback channel data (app r)")
       (auto simp: handle_command_def parse_command_def emit_def invoked_append Let_def
             split: option.splits)
qed

theorem handle_command_data_second_field_witness:
  "invoked (out (snd (handle_command ''1:a:b'' (register_channel 1 cb_ok ranger0))))
     = [Channel_cb 1 ''a'']"
  using handle_command_data_second_field
          [of "''1''" 1 "register_channel 1 cb_ok ranger0" cb_ok "''a''" "''a:b''"]
  by (simp add: py_int_eval register_channel_def ranger0_def)

subsection \<open>Fail-fast batches\<close>

text \<open>
  C3: in the loop of \<open>write_handler\<close>, a non-empty segment whose channel token
  does not parse as an integer ends the loop: the result does not depend on the segments
  after it. So does a parsed segment whose registered callback raises. A parsed segment
  whose channel has no callback is reported (\<open>unhandled write\<close>) and the loop goes
  on with the remaining segments.
\<close>

theorem write_handler_fail_fast:
  "(0 < length command \<and> str_split CHR '':'' command = tok # others \<and> py_int tok = None \<longrightarrow>
      handle_commands (command # commands) r = emit (Print Invalid_channel_type) r)
   \<and> (str_split CHR '':'' command = tok # data # others \<and> py_int tok = Some channel
        \<and> channel_callbacks r channel = Some callback
        \<and> callback channel data (app r) = (Some e, x) \<longrightarrow>
      handle_commands (command # commands) r =
        emit (Print (Failed_to_handle_data e)) ((emit (Invoke (Channel_cb channel data)) r)\<lparr>app := x\<rparr>))
   \<and> (str_split CHR '':'' command = tok # data # others \<and> py_int tok = Some channel
        \<and> channel_callbacks r channel = None \<longrightarrow>
      handle_commands (command # commands) r =
        handle_commands commands (emit (Print (Unhandled_write command)) r))"
proof (intro conjI impI)
  assume "0 < length command \<and> str_split CHR '':'' command = tok # others \<and> py_int tok = None"
  then show "handle_commands (command # commands) r = emit (Print Invalid_channel_type) r"
    by (simp add: handle_command_def parse_command_def)
next
  assume a: "str_split CHR '':'' command = tok # data # others \<and> py_int tok = Some channel
        \<and> channel_callbacks r channel = Some callback
        \<and> callback channel data (app r) = (Some e, x)"
  then have "command \<noteq> []" by auto
  with a show "handle_commands (command # commands) r =
        emit (Print (Failed_to_handle_data e)) ((emit (Invoke (Channel_cb channel data)) r)\<lparr>app := x\<rparr>)"
    by (simp add: handle_command_def parse_command_def emit_def)
next
  assume a: "str_split CHR '':'' command = tok # data # others \<and> py_int tok = Some channel
        \<and> channel_callbacks r channel = None"
  then have "command \<noteq> []" by auto
  with a show "handle_commands (command # commands) r =
        handle_commands commands (emit (Print (Unhandled_write command)) r)"
    by (simp add: handle_command_def parse_command_def)
qed

theorem write_handler_fail_fast_witness:
  "out (write_handler ''x:bad;1:up'' (register_channel 1 cb_ok ranger0)) = [Print Invalid_channel_type]
   \<and> out (write_handler ''1:up;1:on'' (register_channel 1 cb_fail ranger0))
       = [Invoke (Channel_cb 1 ''up''), Print (Failed_to_handle_data (AppError ''up''))]
   \<and> out (write_handler ''2:q;1:up'' (register_channel 1 cb_ok ranger0))
       = [Print (Unhandled_write ''2:q''), Invoke (Channel_cb 1 ''up'')]"
proof -
  let ?ok = "register_channel 1 cb_ok ranger0"
  let ?fail = "register_channel 1 cb_fail ranger0"
  have s1: "str_split CHR '';'' ''x:bad;1:up'' = [''x:bad'', ''1:up'']"
   and s2: "str_split CHR '';'' ''1:up;1:on'' = [''1:up'', ''1:on'']"
   and s3: "str_split CHR '';'' ''2:q;1:up'' = [''2:q'', ''1:up'']"
    by simp_all
  have i1: "py_int ''x'' = None" and i2: "py_int ''1'' = Some 1" and i3: "py_int ''2'' = Some 2"
    by (simp_all add: py_int_eval)
  have a: "handle_commands [''x:bad'', ''1:up''] ?ok = emit (Print Invalid_channel_type) ?ok"
    using write_handler_fail_fast
            [where command = "''x:bad''" and tok = "''x''" and others = "[''bad'']"
               and commands = "[''1:up'']" and r = ?ok] i1
    by simp
  have b: "handle_commands [''1:up'', ''1:on''] ?fail =
        emit (Print (Failed_to_handle_data (AppError ''up'')))
          ((emit (Invoke (Channel_cb 1 ''up'')) ?fail)\<lparr>app := ()\<rparr>)"
    using write_handler_fail_fast
            [where command = "''1:up''" and tok = "''1''" and others = "[]" and data = "''up''"
               and channel = 1 and r = ?fail and callback = cb_fail and e = "AppError ''up''"
               and x = "()" and commands = "[''1:on'']"] i2
    by (simp add: register_channel_def cb_fail_def)
  have c: "handle_commands [''2:q'', ''1:up''] ?ok =
        handle_commands [''1:up''] (emit (Print (Unhandled_write ''2:q'')) ?ok)"
    using write_handler_fail_fast
            [where command = "''2:q''" and tok = "''2''" and others = "[]" and data = "''q''"
               and channel = 2 and r = ?ok and commands = "[''1:up'']"] i3
    by (simp add: register_channel_def ranger0_def)
  have d: "out (handle_commands [''1:up''] (emit (Print (Unhandled_write ''2:q'')) ?ok))
        = [Print (Unhandled_write ''2:q''), Invoke (Channel_cb 1 ''up'')]"
    using i2 by (simp add: handle_command_def parse_command_def register_channel_def
        ranger0_def cb_ok_def emit_def)
  show ?thesis
    unfolding write_handler_def s1 s2 s3 a b c d
    by (simp add: emit_def register_channel_def ranger0_def)
qed

text \<open>
  C10: a non-empty segment without any \<open>:\<close> ends the loop through the handler
  of the first \<open>try\<close> block, as a non-integer token does: either
  \<open>int(rcv[0])\<close> raises \<open>ValueError\<close>, or it returns and
  \<open>rcv[1]\<close> raises \<open>IndexError\<close>; in both cases the same line is printed
  and the segments after it are not looked at.
\<close>

theorem write_handler_missing_colon:
  "0 < length command \<and> CHR '':'' \<notin> set command \<longrightarrow>
     parse_command (str_split CHR '':'' command) \<in> {Inl ValueError, Inl IndexError}
     \<and> handle_commands (command # commands) r = emit (Print Invalid_channel_type) r"
  by (auto simp: str_split_no_sep handle_command_def parse_command_def split: option.splits)

theorem write_handler_missing_colon_witness:
  "py_int ''5'' = Some 5
   \<and> parse_command (str_split CHR '':'' ''5'') = Inl IndexError
   \<and> out (write_handler ''5;1:up'' (register_channel 1 cb_ok ranger0)) = [Print Invalid_channel_type]"
proof -
  let ?ok = "register_channel 1 cb_ok ranger0"
  have s: "str_split CHR '';'' ''5;1:up'' = [''5'', ''1:up'']" by simp
  have i: "py_int ''5'' = Some 5"
    by (simp add: py_int_eval)
  have p: "parse_command (str_split CHR '':'' ''5'') = Inl IndexError"
    using i by (simp add: parse_command_def)
  have "handle_commands [''5'', ''1:up''] ?ok = emit (Print Invalid_channel_type) ?ok"
    using write_handler_missing_colon [of "''5''" "[''1:up'']" ?ok] by simp
  then show ?thesis
    using i p unfolding write_handler_def s
    by (simp add: emit_def register_channel_def ranger0_def)
qed

section \<open>Properties of the advertisement builder\<close>

lemma add_uuid_structures_128:
  "\<forall>u\<in>set uuids. length u = 16 \<Longrightarrow>
     add_uuid_structures uuids payload = Inr (payload @ uuid_structures uuids)"
  by (induction uuids arbitrary: payload) (simp_all add: uuid_structures_def bytearray_def)

lemma length_uuid_structures:
  "\<forall>u\<in>set uuids. length u = 16 \<Longrightarrow> length (uuid_structures uuids) = length uuids * 18"
  by (induction uuids) (simp_all add: uuid_structures_def)

lemma parse_uuid_structures:
  "\<forall>u\<in>set uuids. length u = 16 \<Longrightarrow>
     parse_ad_structures (uuid_structures uuids) = Some (map (\<lambda>u. (0x07, u)) uuids)"
  by (induction uuids) (simp_all add: uuid_structures_def)

text \<open>
  C5, as the spec states it, fails for long names: the length byte of the scan response is
  built by \<open>bytearray([len(name_bytes) + 1, 0x09])\<close>, and for a name of 255 bytes
  the value 256 is not a byte, so \<open>_build_scan_response\<close> raises
  \<open>ValueError\<close> and produces no payload.
\<close>

theorem build_scan_response_long_name:
  "build_scan_response \<lparr>name = replicate 255 CHR ''a'', service_uuids = []\<rparr> = Inl ValueError"
  by (simp add: build_scan_response_def bytearray_def encode_def)

text \<open>
  C5, amended: for a name of at most 254 UTF-8 bytes and any sequence of N 128-bit UUIDs,
  the advertising payload is \<open>02 01 06\<close> followed by the UUID section, which has
  N times 18 bytes, each UUID as \<open>[17] 07\<close> and its 16 bytes; the scan response is
  the byte \<open>len + 1\<close>, then \<open>09\<close>, then the name bytes, \<open>len + 2\<close> bytes
  in all; and reading the advertising payload back as AD structures gives the flags
  structure with value \<open>06\<close> and then every UUID, in order.
\<close>

theorem advertisement_wire_format:
  assumes "\<forall>u\<in>set uuids. length u = 16" and "length (encode nm) \<le> 254"
  shows "build_adv_payload \<lparr>name = nm, service_uuids = uuids\<rparr>
           = Inr ([0x02, 0x01, 0x06] @ uuid_structures uuids)
       \<and> length (uuid_structures uuids) = length uuids * 18
       \<and> build_scan_response \<lparr>name = nm, service_uuids = uuids\<rparr>
           = Inr ([of_nat (length (encode nm) + 1), 0x09] @ encode nm)
       \<and> unat (of_nat (length (encode nm) + 1) :: byte) = length (encode nm) + 1
       \<and> length ([of_nat (length (encode nm) + 1), 0x09 :: byte] @ encode nm) = length (encode nm) + 2
       \<and> parse_ad_structures ([0x02, 0x01, 0x06] @ uuid_structures uuids)
           = Some ((0x01, [0x06]) # map (\<lambda>u. (0x07, u)) uuids)"
proof -
  have 1: "build_adv_payload \<lparr>name = nm, service_uuids = uuids\<rparr>
           = Inr ([0x02, 0x01, 0x06] @ uuid_structures uuids)"
    using assms(1) by (simp add: build_adv_payload_def bytearray_def add_uuid_structures_128)
  have 2: "build_scan_response \<lparr>name = nm, service_uuids = uuids\<rparr>
           = Inr ([of_nat (length (encode nm) + 1), 0x09] @ encode nm)"
    using assms(2) by (simp add: build_scan_response_def bytearray_def Let_def)
  have 3: "unat (of_nat (length (encode nm) + 1) :: byte) = length (encode nm) + 1"
    by (rule of_nat_inverse [OF refl]) (use assms(2) in simp)
  have 4: "parse_ad_structures ([0x02, 0x01, 0x06] @ uuid_structures uuids)
           = Some ((0x01, [0x06]) # map (\<lambda>u. (0x07, u)) uuids)"
    using assms(1) by (simp add: parse_uuid_structures)
  show ?thesis using 1 2 3 4 assms(1) by (simp add: length_uuid_structures)
qed

theorem advertisement_wire_format_witness:
  "build_adv_payload \<lparr>name = ''PicoW'', service_uuids = [uuid_example]\<rparr>
     = Inr ([0x02, 0x01, 0x06, 17, 0x07] @ uuid_example)
   \<and> build_scan_response \<lparr>name = ''PicoW'', service_uuids = [uuid_example]\<rparr>
     = Inr [6, 0x09, 0x50, 0x69, 0x63, 0x6F, 0x57]
   \<and> parse_ad_structures ([0x02, 0x01, 0x06, 17, 0x07] @ uuid_example)
     = Some [(0x01, [0x06]), (0x07, uuid_example)]"
proof -
  have h1: "\<forall>u\<in>set [uuid_example]. length u = 16" by (simp add: uuid_example_def)
  have h2: "length (encode ''PicoW'') \<le> 254" by (simp add: encode_def)
  show ?thesis
    using advertisement_wire_format [OF h1 h2] by (simp add: uuid_structures_def encode_def)
qed

section \<open>Properties of the peripheral manager\<close>

lemmas fixture_defs = example_manager_def new_manager_def example_chars_def example_svcs_def
  new_characteristic_def new_service_def add_characteristic_def


subsection \<open>Registration of a service\<close>

lemma assign_handles_frame [simp]:
  "env (assign_handles pairs s) = env s"
  "trace (assign_handles pairs s) = trace s"
  "svcs (assign_handles pairs s) = svcs s"
  "services (assign_handles pairs s) = services s"
  "connections (assign_handles pairs s) = connections s"
  "advertising (assign_handles pairs s) = advertising s"
  by (induction pairs s rule: assign_handles.induct) simp_all

lemma assign_handles_registry_other:
  "h \<notin> snd ` set pairs \<Longrightarrow>
     characteristic_handles (assign_handles pairs s) h = characteristic_handles s h"
  by (induction pairs s rule: assign_handles.induct) auto

lemma assign_handles_chars_other:
  "c \<notin> fst ` set pairs \<Longrightarrow> chars (assign_handles pairs s) c = chars s c"
  by (induction pairs s rule: assign_handles.induct) auto

lemma assign_handles_registry:
  "distinct (map snd pairs) \<Longrightarrow> (c, h) \<in> set pairs \<Longrightarrow>
     characteristic_handles (assign_handles pairs s) h = Some c"
proof (induction pairs s rule: assign_handles.induct)
  case (1 s)
  then show ?case by simp
next
  case (2 c' h' pairs s)
  show ?case
  proof (cases "(c, h) \<in> set pairs")
    case True
    with 2 show ?thesis by simp
  next
    case False
    with 2 have eq: "c' = c" "h' = h" and notin: "h \<notin> snd ` set pairs" by auto
    show ?thesis using notin by (simp add: eq assign_handles_registry_other)
  qed
qed

lemma assign_handles_handle:
  "distinct (map fst pairs) \<Longrightarrow> (c, h) \<in> set pairs \<Longrightarrow>
     handle (chars (assign_handles pairs s) c) = Some h"
proof (induction pairs s rule: assign_handles.induct)
  case (1 s)
  then show ?case by simp
next
  case (2 c' h' pairs s)
  show ?case
  proof (cases "(c, h) \<in> set pairs")
    case True
    with 2 show ?thesis by simp
  next
    case False
    with 2 have eq: "c' = c" "h' = h" and notin: "c \<notin> fst ` set pairs" by auto
    show ?thesis using notin by (simp add: eq assign_handles_chars_other)
  qed
qed

text \<open>
  C4: when the stack answers the registration of a service with the handles
  \<open>h1, \<dots>, hN\<close> for its characteristics \<open>c1, \<dots>, cN\<close>,
  \<open>add_service\<close> returns normally, each characteristic \<open>ci\<close> has the handle
  \<open>hi\<close> afterwards, and the handle registry maps \<open>hi\<close> to \<open>ci\<close>. The
  characteristics are N different objects and the handles are N different handles, as a
  stack gives them: no registry could map one handle to two characteristics.
\<close>

theorem add_service_assigns_handles:
  assumes reg: "st_gatts_register_services stk
                 [(service_uuid (svcs s service),
                   map (\<lambda>c. (char_uuid (chars s c), flags (chars s c))) (characteristics (svcs s service)))]
                 (env s) = (Inr (hs # others), e')"
    and cs: "cs = characteristics (svcs s service)"
    and len: "length hs = length cs"
    and dc: "distinct cs" and dh: "distinct hs"
  shows "fst (add_service stk service s) = None
       \<and> (\<forall>i < length cs.
            handle (chars (snd (add_service stk service s)) (cs ! i)) = Some (hs ! i)
          \<and> characteristic_handles (snd (add_service stk service s)) (hs ! i) = Some (cs ! i))"
proof -
  let ?s2 = "observe (Call (Gatts_register_services
                 [(service_uuid (svcs s service),
                   map (\<lambda>c. (char_uuid (chars s c), flags (chars s c))) (characteristics (svcs s service)))]))
               (s\<lparr>services := services s @ [service], env := e'\<rparr>)"
  have r: "add_service stk service s =
     (None, observe (Print (Service_added (service_uuid (svcs s service)) (hs # others)))
              (assign_handles (zip cs hs) ?s2))"
    using reg cs
    by (simp add: add_service_def ble_gatts_register_services_def observe_def Let_def)
  have m1: "distinct (map fst (zip cs hs))" and m2: "distinct (map snd (zip cs hs))"
    using len dc dh by simp_all
  have "handle (chars (assign_handles (zip cs hs) ?s2) (cs ! i)) = Some (hs ! i)
      \<and> characteristic_handles (assign_handles (zip cs hs) ?s2) (hs ! i) = Some (cs ! i)"
    if "i < length cs" for i
  proof -
    have "(cs ! i, hs ! i) \<in> set (zip cs hs)"
      using that len by (auto simp: set_zip)
    then show ?thesis
      using assign_handles_handle [OF m1] assign_handles_registry [OF m2] by blast
  qed
  then show ?thesis
    unfolding r by (simp add: observe_def)
qed

theorem add_service_assigns_handles_witness:
  "fst (add_service (stack_ok [] [ [10, 12] ]) 0 (example_manager None ())) = None
   \<and> handle (chars (snd (add_service (stack_ok [] [ [10, 12] ]) 0 (example_manager None ()))) 0) = Some 10
   \<and> handle (chars (snd (add_service (stack_ok [] [ [10, 12] ]) 0 (example_manager None ()))) 1) = Some 12
   \<and> characteristic_handles (snd (add_service (stack_ok [] [ [10, 12] ]) 0 (example_manager None ()))) 10 = Some 0
   \<and> characteristic_handles (snd (add_service (stack_ok [] [ [10, 12] ]) 0 (example_manager None ()))) 12 = Some 1"
proof -
  let ?s = "example_manager None () :: unit BLEManager"
  have cs: "[0, 1] = characteristics (svcs ?s 0)" by (simp add: fixture_defs)
  have reg: "st_gatts_register_services (stack_ok [] [ [10, 12] ])
                 [(service_uuid (svcs ?s 0),
                   map (\<lambda>c. (char_uuid (chars ?s c), flags (chars ?s c))) (characteristics (svcs ?s 0)))]
                 (env ?s) = (Inr ([10, 12] # []), ())"
    by (simp add: stack_ok_def)
  have "\<forall>i < length [0, 1 :: nat].
            handle (chars (snd (add_service (stack_ok [] [ [10, 12] ]) 0 ?s)) ([0, 1] ! i)) = Some ([10, 12] ! i)
          \<and> characteristic_handles (snd (add_service (stack_ok [] [ [10, 12] ]) 0 ?s)) ([10, 12] ! i) = Some ([0, 1] ! i)"
    and n: "fst (add_service (stack_ok [] [ [10, 12] ]) 0 ?s) = None"
    using add_service_assigns_handles [OF reg cs] by simp_all
  from this(1) [rule_format, of 0] this(1) [rule_format, of 1] n show ?thesis by simp
qed

text \<open>
  C9: \<open>add_service\<close> appends the service to the service list before it calls
  the stack. When the stack rejects the registration, the exception leaves
  \<open>add_service\<close> with the service in the list, while no characteristic object and
  no entry of the handle registry has changed: the characteristics of the service have the
  handles they had before, none for characteristics as their constructor leaves them.
\<close>

theorem add_service_not_atomic:
  assumes "st_gatts_register_services stk
             [(service_uuid (svcs s service),
               map (\<lambda>c. (char_uuid (chars s c), flags (chars s c))) (characteristics (svcs s service)))]
             (env s) = (Inl e, e')"
  shows "fst (add_service stk service s) = Some e
       \<and> services (snd (add_service stk service s)) = services s @ [service]
       \<and> chars (snd (add_service stk service s)) = chars s
       \<and> characteristic_handles (snd (add_service stk service s)) = characteristic_handles s"
  using assms
  by (simp add: add_service_def ble_gatts_register_services_def observe_def Let_def)

theorem add_service_not_atomic_witness:
  "fst (add_service stack_reject 0 (example_manager None ())) = Some (OSError 12)
   \<and> services (snd (add_service stack_reject 0 (example_manager None ()))) = [0]
   \<and> handle (chars (snd (add_service stack_reject 0 (example_manager None ()))) 0) = None
   \<and> handle (chars (snd (add_service stack_reject 0 (example_manager None ()))) 1) = None
   \<and> characteristic_handles (snd (add_service stack_reject 0 (example_manager None ()))) = Map.empty"
  using add_service_not_atomic [of stack_reject "example_manager None ()" 0 "OSError 12" "()"]
  by (simp add: stack_reject_def stack_ok_def fixture_defs)

subsection \<open>Notification\<close>

lemma stack_calls_append: "stack_calls (xs @ ys) = stack_calls xs @ stack_calls ys"
  by (induction xs rule: stack_calls.induct) auto

lemma find_append:
  "List.find P (xs @ ys) = (case List.find P xs of None \<Rightarrow> List.find P ys | Some x \<Rightarrow> Some x)"
  by (induction xs) auto

lemma ble_gatts_notify_frame:
  "ble_gatts_notify stk conn h v s = (r, s') \<Longrightarrow>
     chars s' = chars s \<and> svcs s' = svcs s \<and> services s' = services s
     \<and> connections s' = connections s \<and> characteristic_handles s' = characteristic_handles s
     \<and> trace s' = trace s @ [Call (Gatts_notify conn h v)]"
  by (auto simp: ble_gatts_notify_def observe_def split: prod.splits)

lemma notify_connections_frame:
  "notify_connections stk conns h v s = (r, s') \<Longrightarrow>
     chars s' = chars s \<and> svcs s' = svcs s \<and> services s' = services s
     \<and> connections s' = connections s \<and> characteristic_handles s' = characteristic_handles s"
proof (induction conns arbitrary: s)
  case Nil
  then show ?case by simp
next
  case (Cons conn conns)
  obtain r1 s1 where b: "ble_gatts_notify stk conn h v s = (r1, s1)"
    by (cases "ble_gatts_notify stk conn h v s")
  show ?case
  proof (cases r1)
    case None
    with Cons.prems b have "notify_connections stk conns h v s1 = (r, s')" by simp
    from Cons.IH [OF this] ble_gatts_notify_frame [OF b] show ?thesis by simp
  next
    case (Some e)
    with Cons.prems b have "s' = s1" by simp
    with ble_gatts_notify_frame [OF b] show ?thesis by simp
  qed
qed

lemma notify_connections_calls:
  "notify_connections stk conns h v s = (None, s') \<Longrightarrow>
     stack_calls (trace s') = stack_calls (trace s) @ map (\<lambda>conn. Gatts_notify conn h v) conns"
proof (induction conns arbitrary: s)
  case Nil
  then show ?case by simp
next
  case (Cons conn conns)
  obtain r1 s1 where b: "ble_gatts_notify stk conn h v s = (r1, s1)"
    by (cases "ble_gatts_notify stk conn h v s")
  with Cons.prems have r1: "r1 = None" and n: "notify_connections stk conns h v s1 = (None, s')"
    by (auto split: option.splits)
  from Cons.IH [OF n] ble_gatts_notify_frame [OF b] show ?case
    by (simp add: stack_calls_append)
qed

lemma notify_chars_find:
  "notify_chars stk uuid v cs s =
     (case List.find (\<lambda>c. char_uuid (chars s c) = uuid) cs of
        None \<Rightarrow> (Inr False, s)
      | Some c \<Rightarrow> send_notifications stk uuid v c s)"
proof (induction cs)
  case Nil
  show ?case by simp
next
  case (Cons c cs)
  show ?case
  proof (cases "char_uuid (chars s c) = uuid")
    case True
    then show ?thesis
      by (simp only: notify_chars.simps send_notifications_def find.simps if_True option.case simp_thms)
  next
    case False
    with Cons show ?thesis by simp
  qed
qed

lemma send_notifications_not_False:
  "fst (send_notifications stk uuid v c s) \<noteq> Inr False"
  by (auto simp: send_notifications_def Let_def split: prod.splits option.splits)

lemma notify_services_find:
  "notify_services stk uuid v svl s =
     (case List.find (\<lambda>c. char_uuid (chars s c) = uuid)
             (concat (map (\<lambda>service. characteristics (svcs s service)) svl)) of
        None \<Rightarrow> (Inr False, s)
      | Some c \<Rightarrow> send_notifications stk uuid v c s)"
proof (induction svl)
  case Nil
  then show ?case by simp
next
  case (Cons service svl)
  show ?case
  proof (cases "List.find (\<lambda>c. char_uuid (chars s c) = uuid) (characteristics (svcs s service))")
    case None
    with Cons show ?thesis by (simp add: notify_chars_find find_append)
  next
    case (Some c)
    obtain r s1 where sn: "send_notifications stk uuid v c s = (r, s1)"
      by (cases "send_notifications stk uuid v c s")
    with send_notifications_not_False [of stk uuid v c s] have "r \<noteq> Inr False" by simp
    have fa: "List.find (\<lambda>c. char_uuid (chars s c) = uuid)
             (concat (map (\<lambda>service. characteristics (svcs s service)) (service # svl))) = Some c"
      using Some by (simp add: find_append)
    have nc: "notify_chars stk uuid v (characteristics (svcs s service)) s = (r, s1)"
      using Some sn by (simp only: notify_chars_find option.case)
    have "notify_services stk uuid v (service # svl) s = (r, s1)"
    proof (cases r)
      case (Inl e)
      then show ?thesis using nc by (simp only: notify_services.simps prod.case sum.case)
    next
      case (Inr b)
      with \<open>r \<noteq> Inr False\<close> have "b = True" by simp
      with Inr show ?thesis using nc by (simp only: notify_services.simps prod.case sum.case bool.case)
    qed
    then show ?thesis
      using sn by (simp only: fa option.case)
  qed
qed

lemma count_list_map_distinct:
  "distinct xs \<Longrightarrow> inj f \<Longrightarrow> count_list (map f xs) (f x) = (if x \<in> set xs then 1 else 0)"
  by (induction xs) (auto simp: inj_eq)

lemma example_connected_fields:
  "list_of_dlist (connections example_connected) = [9, 5]"
  "services example_connected = [0]"
  "svcs example_connected = example_svcs"
  "handle (chars example_connected 1) = Some 12"
  "char_uuid (chars example_connected 0) = uuid_char1"
  "char_uuid (chars example_connected 1) = uuid_char2"
  "handle (chars example_connected (Suc 0)) = Some 12"
  "char_uuid (chars example_connected (Suc 0)) = uuid_char2"
  "stack_calls (trace example_connected) = [Gatts_register_services [(uuid_example, [(uuid_char1, 10), (uuid_char2, 18)])] ]"
  by (simp_all add: example_connected_def irq_handler_def add_service_def
        ble_gatts_register_services_def stack_ok_def observe_def fixture_defs Let_def)

text \<open>
  C7, as the spec states it, fails when the stack refuses a notification:
  \<open>notify\<close> calls \<open>gatts_notify\<close> bare inside the loop over the connection
  set, so with the connections 9 and 5 and a \<open>gatts_notify\<close> that raises, the
  exception leaves \<open>notify\<close> after the first call and no call is made for the other
  connection.
\<close>

theorem notify_stops_at_failing_call:
  "fst (notify stack_notify_fails uuid_char2 [0x48, 0x69] example_connected) = Some (OSError 128)
   \<and> list_of_dlist (connections example_connected) = [9, 5]
   \<and> stack_calls (trace (snd (notify stack_notify_fails uuid_char2 [0x48, 0x69] example_connected)))
       = stack_calls (trace example_connected) @ [Gatts_notify 9 (Some 12) [0x48, 0x69]]"
proof -
  have u: "uuid_char1 \<noteq> uuid_char2"
    by (simp add: uuid_char1_def uuid_char2_def uuid_example_def)
  show ?thesis
    using u by (simp add: notify_def example_connected_fields example_svcs_def add_characteristic_def
        new_service_def ble_gatts_notify_def stack_notify_fails_def stack_ok_def observe_def
        stack_calls_append Let_def)
qed

text \<open>
  C7, amended: when no characteristic of a registered service has the UUID,
  \<open>notify\<close> reports \<open>not found\<close> and does nothing else: no stack call, no
  change of the manager or of the environment. When there is one, \<open>notify\<close> sets
  the cached value of the characteristic it locates, and, when it returns normally, it has
  made the stack calls \<open>gatts_notify(conn, handle, value)\<close> for the connection ids
  of the connection set and no other stack call: exactly one call for each id in the set
  and none for any other id.
\<close>

theorem notify_calls:
  "(find_characteristic uuid s = None \<longrightarrow>
      notify stk uuid v s = (None, observe (Print (Characteristic_not_found uuid)) s))
   \<and> (find_characteristic uuid s = Some c \<longrightarrow>
        char_value (chars (snd (notify stk uuid v s)) c) = v
      \<and> (fst (notify stk uuid v s) = None \<longrightarrow>
           stack_calls (trace (snd (notify stk uuid v s)))
             = stack_calls (trace s)
               @ map (\<lambda>conn. Gatts_notify conn (handle (chars s c)) v) (list_of_dlist (connections s))
         \<and> (\<forall>conn. count_list
                (map (\<lambda>conn. Gatts_notify conn (handle (chars s c)) v) (list_of_dlist (connections s)))
                (Gatts_notify conn (handle (chars s c)) v)
              = (if conn \<in> set (list_of_dlist (connections s)) then 1 else 0))))"
proof (intro conjI impI)
  assume "find_characteristic uuid s = None"
  then show "notify stk uuid v s = (None, observe (Print (Characteristic_not_found uuid)) s)"
    by (simp add: notify_def notify_services_find find_characteristic_def all_characteristics_def)
next
  assume f: "find_characteristic uuid s = Some c"
  let ?s1 = "s\<lparr>chars := (chars s)(c := (chars s c)\<lparr>char_value := v\<rparr>)\<rparr>"
  obtain r s2 where nc: "notify_connections stk (list_of_dlist (connections s)) (handle (chars s c)) v ?s1 = (r, s2)"
    by (cases "notify_connections stk (list_of_dlist (connections s)) (handle (chars s c)) v ?s1")
  have n: "notify stk uuid v s =
      (case r of Some e \<Rightarrow> (Some e, s2) | None \<Rightarrow> (None, observe (Print (Notification_sent uuid v)) s2))"
    using f nc
    by (simp add: notify_def notify_services_find find_characteristic_def all_characteristics_def
          send_notifications_def split: option.splits)
  have fr: "chars s2 = chars ?s1" using notify_connections_frame [OF nc] by simp
  show "char_value (chars (snd (notify stk uuid v s)) c) = v"
    unfolding n using fr by (simp add: observe_def split: option.splits)
  {
    assume ok: "fst (notify stk uuid v s) = None"
    then have r: "r = None" unfolding n by (simp split: option.splits)
    from nc [unfolded r] have "stack_calls (trace s2) = stack_calls (trace ?s1)
          @ map (\<lambda>conn. Gatts_notify conn (handle (chars s c)) v) (list_of_dlist (connections s))"
      by (rule notify_connections_calls)
    then show "stack_calls (trace (snd (notify stk uuid v s)))
             = stack_calls (trace s)
               @ map (\<lambda>conn. Gatts_notify conn (handle (chars s c)) v) (list_of_dlist (connections s))"
      unfolding n r by (simp add: observe_def stack_calls_append)
  }
  {
    have "inj (\<lambda>conn. Gatts_notify conn (handle (chars s c)) v)"
      by (simp add: inj_def)
    then show "\<forall>conn. count_list
                (map (\<lambda>conn. Gatts_notify conn (handle (chars s c)) v) (list_of_dlist (connections s)))
                (Gatts_notify conn (handle (chars s c)) v)
              = (if conn \<in> set (list_of_dlist (connections s)) then 1 else 0)"
      using count_list_map_distinct [of "list_of_dlist (connections s)" "\<lambda>conn. Gatts_notify conn (handle (chars s c)) v"]
      by simp
  }
qed

theorem notify_calls_witness:
  "notify (stack_ok [] []) uuid_example [0x48, 0x69] example_connected
     = (None, observe (Print (Characteristic_not_found uuid_example)) example_connected)
   \<and> char_value (chars (snd (notify (stack_ok [] []) uuid_char2 [0x48, 0x69] example_connected)) 1) = [0x48, 0x69]
   \<and> stack_calls (trace (snd (notify (stack_ok [] []) uuid_char2 [0x48, 0x69] example_connected)))
       = stack_calls (trace example_connected)
         @ [Gatts_notify 9 (Some 12) [0x48, 0x69], Gatts_notify 5 (Some 12) [0x48, 0x69] ]"
proof -
  let ?stk = "stack_ok [] [] :: unit stack"
  have u: "uuid_char1 \<noteq> uuid_char2" "uuid_char1 \<noteq> uuid_example" "uuid_char2 \<noteq> uuid_example"
    by (simp_all add: uuid_char1_def uuid_char2_def uuid_example_def)
  have f1: "find_characteristic uuid_example example_connected = None"
    using u by (simp add: find_characteristic_def all_characteristics_def example_connected_fields
        example_svcs_def add_characteristic_def new_service_def)
  have f2: "find_characteristic uuid_char2 example_connected = Some 1"
    using u by (simp add: find_characteristic_def all_characteristics_def example_connected_fields
        example_svcs_def add_characteristic_def new_service_def)
  have ok: "fst (notify ?stk uuid_char2 [0x48, 0x69] example_connected) = None"
    using u by (simp add: notify_def example_connected_fields example_svcs_def add_characteristic_def
        new_service_def ble_gatts_notify_def stack_ok_def Let_def)
  show ?thesis
    using notify_calls [of uuid_example example_connected ?stk "[0x48, 0x69]"]
          notify_calls [of uuid_char2 example_connected ?stk "[0x48, 0x69]" 1] f1 f2 ok
    by (simp add: example_connected_fields)
qed

subsection \<open>The event dispatcher\<close>

lemma run_cb_frame:
  "run_cb c f s = (r, s') \<Longrightarrow>
     r = fst (f (env s)) \<and> env s' = snd (f (env s)) \<and> connections s' = connections s
     \<and> advertising s' = advertising s \<and> stack_calls (trace s') = stack_calls (trace s)"
  by (auto simp: run_cb_def observe_def stack_calls_append split: prod.splits)

lemma start_calls:
  assumes "build_adv_payload (advertising s) = Inr adv"
    and "build_scan_response (advertising s) = Inr resp"
  shows "stack_calls (trace (snd (start stk interval s)))
           = stack_calls (trace s) @ [Gap_advertise (Some interval) (Some adv) (Some resp)]
       \<and> connections (snd (start stk interval s)) = connections s
       \<and> fst (start stk interval s) = fst (st_gap_advertise stk (Some interval) (Some adv) (Some resp) (env s))"
  using assms
  by (auto simp: start_def ble_gap_advertise_def observe_def stack_calls_append
           split: prod.splits option.splits)

lemma start_connections: "connections (snd (start stk interval s)) = connections s"
  by (auto simp: start_def ble_gap_advertise_def observe_def split: prod.splits option.splits sum.splits)

lemma disconnect_connections:
  "irq_handler stk (IRQ_CENTRAL_DISCONNECT X) s = (r, s') \<Longrightarrow>
     connections s' = Dlist.remove X (connections s)"
proof -
  assume a: "irq_handler stk (IRQ_CENTRAL_DISCONNECT X) s = (r, s')"
  let ?s1 = "observe (Print (Central_disconnected X)) (s\<lparr>connections := Dlist.remove X (connections s)\<rparr>)"
  obtain rc sc where cb: "(case disconnect_callback ?s1 of
                   None \<Rightarrow> (None, ?s1)
                 | Some callback \<Rightarrow> run_cb (Disconnect_cb X) (callback X) ?s1) = (rc, sc)"
    by (cases "(case disconnect_callback ?s1 of
                   None \<Rightarrow> (None, ?s1)
                 | Some callback \<Rightarrow> run_cb (Disconnect_cb X) (callback X) ?s1)")
  have c1: "connections sc = Dlist.remove X (connections s)"
    using cb by (auto simp: observe_def split: option.splits dest!: run_cb_frame)
  have "s' = (case rc of Some e \<Rightarrow> sc | None \<Rightarrow> snd (start stk 100 sc))"
    using a cb by (auto simp: irq_handler_def Let_def split: option.splits)
  then show ?thesis using c1 by (simp add: start_connections split: option.splits)
qed

lemmas irq_eval = irq_handler_def start_def run_cb_def observe_def ble_gap_advertise_def
  ble_gatts_read_def build_adv_payload_def build_scan_response_def bytearray_def encode_def
  stack_ok_def Let_def


text \<open>
  C1, as the spec states it, fails on the code: \<open>_irq_handler\<close> has no
  \<open>try\<close>. On a write event whose value is the single byte \<open>FF\<close>,
  \<open>value.decode()\<close> raises \<open>UnicodeError\<close> out of the dispatcher; on a
  write event for a characteristic whose write callback raises, that exception leaves the
  dispatcher.
\<close>

theorem irq_handler_lets_exceptions_escape:
  "fst (irq_handler (stack_ok [0xFF] []) (IRQ_GATTS_WRITE 5 10) example_connected) = Some UnicodeError
   \<and> fst (irq_handler (stack_ok [0x31, 0x3A, 0x75, 0x70] []) (IRQ_GATTS_WRITE 5 10)
            (snd (add_service (stack_ok [] [ [10, 12] ]) 0 (example_manager (Some write_cb_fail) ()))))
       = Some (AppError ''callback'')"
  by (simp add: irq_eval decode_def cont_def add_service_def ble_gatts_register_services_def
        write_cb_fail_def fixture_defs)

text \<open>
  C1, amended: the dispatcher raises what its steps raise and nothing else. An event
  other than connect, disconnect and write is ignored. A connect event completes without
  raising unless the connect callback raises. A write event raises what
  \<open>gatts_read\<close> raises; after a read that returns a valid UTF-8 value it completes
  without raising for an unknown handle and for a characteristic without write callback,
  and otherwise raises what the write callback raises. A disconnect event raises what the
  disconnect callback raises, and after a callback that returns, or without a callback,
  what \<open>advertising.start()\<close> raises. \<open>on_write\<close> of the router raises
  only when the value does not decode.
\<close>

theorem irq_handler_raises_iff:
  "fst (irq_handler stk IRQ_OTHER s) = None
   \<and> fst (irq_handler stk (IRQ_CENTRAL_CONNECT X) s)
       = (case connect_callback s of None \<Rightarrow> None | Some callback \<Rightarrow> fst (callback X (env s)))
   \<and> (st_gatts_read stk h (env s) = (Inl e, e1) \<longrightarrow>
        fst (irq_handler stk (IRQ_GATTS_WRITE X h) s) = Some e)
   \<and> (st_gatts_read stk h (env s) = (Inr v, e1) \<longrightarrow>
        fst (irq_handler stk (IRQ_GATTS_WRITE X h) s)
          = (if \<not> utf8_valid v then Some UnicodeError
             else case characteristic_handles s h of
                    None \<Rightarrow> None
                  | Some c \<Rightarrow>
                      (case write_callback (chars s c) of
                         None \<Rightarrow> None
                       | Some callback \<Rightarrow> fst (callback X c v e1))))
   \<and> fst (irq_handler stk (IRQ_CENTRAL_DISCONNECT X) s)
       = (case disconnect_callback s of
            None \<Rightarrow> fst (start stk 100 (observe (Print (Central_disconnected X))
                            (s\<lparr>connections := Dlist.remove X (connections s)\<rparr>)))
          | Some callback \<Rightarrow>
              (case fst (callback X (env s)) of
                 Some e \<Rightarrow> Some e
               | None \<Rightarrow>
                   fst (start stk 100
                          (snd (run_cb (Disconnect_cb X) (callback X)
                                  (observe (Print (Central_disconnected X))
                                     (s\<lparr>connections := Dlist.remove X (connections s)\<rparr>)))))))
   \<and> fst (on_write X c' v' r) = (if utf8_valid v' then None else Some UnicodeError)"
proof (intro conjI impI)
  show "fst (irq_handler stk IRQ_OTHER s) = None"
    by (simp add: irq_handler_def)
  show "fst (irq_handler stk (IRQ_CENTRAL_CONNECT X) s)
       = (case connect_callback s of None \<Rightarrow> None | Some callback \<Rightarrow> fst (callback X (env s)))"
    by (auto simp: irq_handler_def Let_def run_cb_def observe_def split: option.splits prod.splits)
  show "fst (irq_handler stk (IRQ_GATTS_WRITE X h) s) = Some e"
    if "st_gatts_read stk h (env s) = (Inl e, e1)"
    using that by (simp add: irq_handler_def ble_gatts_read_def)
  show "fst (irq_handler stk (IRQ_GATTS_WRITE X h) s)
          = (if \<not> utf8_valid v then Some UnicodeError
             else case characteristic_handles s h of
                    None \<Rightarrow> None
                  | Some c \<Rightarrow>
                      (case write_callback (chars s c) of
                         None \<Rightarrow> None
                       | Some callback \<Rightarrow> fst (callback X c v e1)))"
    if "st_gatts_read stk h (env s) = (Inr v, e1)"
    using that
    by (auto simp: irq_handler_def ble_gatts_read_def decode_def Let_def run_cb_def observe_def
             split: option.splits prod.splits)
  show "fst (irq_handler stk (IRQ_CENTRAL_DISCONNECT X) s)
       = (case disconnect_callback s of
            None \<Rightarrow> fst (start stk 100 (observe (Print (Central_disconnected X))
                            (s\<lparr>connections := Dlist.remove X (connections s)\<rparr>)))
          | Some callback \<Rightarrow>
              (case fst (callback X (env s)) of
                 Some e \<Rightarrow> Some e
               | None \<Rightarrow>
                   fst (start stk 100
                          (snd (run_cb (Disconnect_cb X) (callback X)
                                  (observe (Print (Central_disconnected X))
                                     (s\<lparr>connections := Dlist.remove X (connections s)\<rparr>)))))))"
    by (auto simp: irq_handler_def Let_def run_cb_def observe_def split: option.splits prod.splits)
  show "fst (on_write X c' v' r) = (if utf8_valid v' then None else Some UnicodeError)"
    by (simp add: on_write_def decode_def)
qed

theorem irq_handler_raises_iff_witness:
  "fst (irq_handler (stack_ok [0x31, 0x3A, 0x75, 0x70] []) (IRQ_GATTS_WRITE 5 99) example_connected) = None
   \<and> fst (irq_handler (stack_ok [0xFF] []) (IRQ_GATTS_WRITE 5 99) example_connected) = Some UnicodeError
   \<and> fst (irq_handler stack_read_fails (IRQ_GATTS_WRITE 5 10) example_connected) = Some (OSError 5)"
proof -
  have r1: "st_gatts_read (stack_ok [0x31, 0x3A, 0x75, 0x70] []) 99 (env example_connected)
              = (Inr [0x31, 0x3A, 0x75, 0x70], ())"
   and r2: "st_gatts_read (stack_ok [0xFF] []) 99 (env example_connected) = (Inr [0xFF], ())"
   and r3: "st_gatts_read stack_read_fails 10 (env example_connected) = (Inl (OSError 5), ())"
    by (simp_all add: stack_ok_def stack_read_fails_def)
  have h: "characteristic_handles example_connected 99 = None"
    by (simp add: example_connected_def irq_handler_def add_service_def
        ble_gatts_register_services_def stack_ok_def observe_def fixture_defs Let_def)
  have a: "fst (irq_handler (stack_ok [0x31, 0x3A, 0x75, 0x70] []) (IRQ_GATTS_WRITE 5 99) example_connected) = None"
    using irq_handler_raises_iff [where stk = "stack_ok [0x31, 0x3A, 0x75, 0x70] []" and s = example_connected
                and h = 99 and v = "[0x31, 0x3A, 0x75, 0x70]" and ?e1.0 = "()" and X = 5,
              THEN conjunct2, THEN conjunct2, THEN conjunct2, THEN conjunct1] r1 h
    by simp
  have b: "fst (irq_handler (stack_ok [0xFF] []) (IRQ_GATTS_WRITE 5 99) example_connected) = Some UnicodeError"
    using irq_handler_raises_iff [where stk = "stack_ok [0xFF] []" and s = example_connected
                and h = 99 and v = "[0xFF]" and ?e1.0 = "()" and X = 5,
              THEN conjunct2, THEN conjunct2, THEN conjunct2, THEN conjunct1] r2
    by simp
  have c: "fst (irq_handler stack_read_fails (IRQ_GATTS_WRITE 5 10) example_connected) = Some (OSError 5)"
    using irq_handler_raises_iff [where stk = stack_read_fails and s = example_connected
                and h = 10 and e = "OSError 5" and ?e1.0 = "()" and X = 5,
              THEN conjunct2, THEN conjunct2, THEN conjunct1] r3
    by simp
  show ?thesis using a b c by simp
qed

text \<open>
  C6, as the spec states it, fails on the code: \<open>advertising.start()\<close> comes
  after the call of the disconnect callback, with no \<open>try\<close> around that call. With
  a disconnect callback that raises, the dispatcher is left with the exception and no call
  into the stack has been made: advertising is not restarted.
\<close>

theorem disconnect_callback_raise_skips_advertising:
  "fst (irq_handler (stack_ok [] []) (IRQ_CENTRAL_DISCONNECT 5)
          (snd (irq_handler (stack_ok [] []) (IRQ_CENTRAL_CONNECT 5)
                  (register_disconnect_callback conn_cb_fail (example_manager None ())))))
     = Some (AppError ''callback'')
   \<and> stack_calls (trace (snd (irq_handler (stack_ok [] []) (IRQ_CENTRAL_DISCONNECT 5)
          (snd (irq_handler (stack_ok [] []) (IRQ_CENTRAL_CONNECT 5)
                  (register_disconnect_callback conn_cb_fail (example_manager None ()))))))) = []"
  by (simp add: irq_eval register_disconnect_callback_def conn_cb_fail_def fixture_defs)

text \<open>
  C6, amended: after a connect event for \<open>X\<close> and then a disconnect event for
  \<open>X\<close>, the connection set does not contain \<open>X\<close>, whatever the callbacks
  do. When the disconnect callback is absent or returns normally, and the two payloads can
  be built, the disconnect event makes exactly one call into the stack:
  \<open>gap_advertise\<close> with interval 100 and the two payloads.
\<close>

theorem disconnect_restarts_advertising:
  assumes c: "irq_handler stk (IRQ_CENTRAL_CONNECT X) s = (r1, s1)"
    and d: "irq_handler stk (IRQ_CENTRAL_DISCONNECT X) s1 = (r2, s2)"
  shows "X \<notin> set (list_of_dlist (connections s2))
       \<and> ((case disconnect_callback s1 of
              None \<Rightarrow> True
            | Some callback \<Rightarrow> fst (callback X (env s1)) = None)
          \<and> build_adv_payload (advertising s1) = Inr adv
          \<and> build_scan_response (advertising s1) = Inr resp \<longrightarrow>
            stack_calls (trace s2)
              = stack_calls (trace s1) @ [Gap_advertise (Some 100) (Some adv) (Some resp)])"
proof (intro conjI impI)
  show "X \<notin> set (list_of_dlist (connections s2))"
    using disconnect_connections [OF d] by simp
next
  assume h: "(case disconnect_callback s1 of
              None \<Rightarrow> True
            | Some callback \<Rightarrow> fst (callback X (env s1)) = None)
          \<and> build_adv_payload (advertising s1) = Inr adv
          \<and> build_scan_response (advertising s1) = Inr resp"
  let ?s1 = "observe (Print (Central_disconnected X)) (s1\<lparr>connections := Dlist.remove X (connections s1)\<rparr>)"
  obtain rc sc where cb: "(case disconnect_callback ?s1 of
                   None \<Rightarrow> (None, ?s1)
                 | Some callback \<Rightarrow> run_cb (Disconnect_cb X) (callback X) ?s1) = (rc, sc)"
    by (cases "(case disconnect_callback ?s1 of
                   None \<Rightarrow> (None, ?s1)
                 | Some callback \<Rightarrow> run_cb (Disconnect_cb X) (callback X) ?s1)")
  have p: "rc = None \<and> advertising sc = advertising s1 \<and> stack_calls (trace sc) = stack_calls (trace s1)"
    using cb h
    by (auto simp: observe_def stack_calls_append split: option.splits dest!: run_cb_frame)
  have "s2 = snd (start stk 100 sc)"
    using d cb p by (auto simp: irq_handler_def Let_def)
  then show "stack_calls (trace s2)
              = stack_calls (trace s1) @ [Gap_advertise (Some 100) (Some adv) (Some resp)]"
    using start_calls [of sc adv resp stk 100] h p by simp
qed

theorem disconnect_restarts_advertising_witness:
  "list_of_dlist (connections (snd (irq_handler (stack_ok [] []) (IRQ_CENTRAL_DISCONNECT 5)
          (snd (irq_handler (stack_ok [] []) (IRQ_CENTRAL_CONNECT 5)
                  (register_disconnect_callback conn_cb_ok (example_manager None ()))))))) = []
   \<and> stack_calls (trace (snd (irq_handler (stack_ok [] []) (IRQ_CENTRAL_DISCONNECT 5)
          (snd (irq_handler (stack_ok [] []) (IRQ_CENTRAL_CONNECT 5)
                  (register_disconnect_callback conn_cb_ok (example_manager None ())))))))
       = [Gap_advertise (Some 100) (Some [0x02, 0x01, 0x06])
            (Some [10, 0x09, 0x50, 0x69, 0x63, 0x6F, 0x57, 0x2D, 0x42, 0x4C, 0x45])]"
proof -
  let ?stk = "stack_ok [] [] :: unit stack"
  let ?s = "register_disconnect_callback conn_cb_ok (example_manager None ())"
  let ?s1 = "snd (irq_handler ?stk (IRQ_CENTRAL_CONNECT 5) ?s)"
  let ?s2 = "snd (irq_handler ?stk (IRQ_CENTRAL_DISCONNECT 5) ?s1)"
  have c: "irq_handler ?stk (IRQ_CENTRAL_CONNECT 5) ?s = (fst (irq_handler ?stk (IRQ_CENTRAL_CONNECT 5) ?s), ?s1)"
    by simp
  have d: "irq_handler ?stk (IRQ_CENTRAL_DISCONNECT 5) ?s1 = (fst (irq_handler ?stk (IRQ_CENTRAL_DISCONNECT 5) ?s1), ?s2)"
    by simp
  have f: "disconnect_callback ?s1 = Some conn_cb_ok" "advertising ?s1 = \<lparr>name = ''PicoW-BLE'', service_uuids = []\<rparr>"
          "stack_calls (trace ?s1) = []" "list_of_dlist (connections ?s1) = [5]"
    by (simp_all add: irq_eval register_disconnect_callback_def fixture_defs)
  have b: "build_adv_payload (advertising ?s1) = Inr [0x02, 0x01, 0x06]"
          "build_scan_response (advertising ?s1)
             = Inr [10, 0x09, 0x50, 0x69, 0x63, 0x6F, 0x57, 0x2D, 0x42, 0x4C, 0x45]"
    unfolding f by (simp_all add: build_adv_payload_def build_scan_response_def bytearray_def encode_def)
  have m: "set (list_of_dlist (connections ?s2)) \<subseteq> set (list_of_dlist (connections ?s1))"
    using disconnect_connections [OF d] by auto
  from disconnect_restarts_advertising [OF c d, of "[0x02, 0x01, 0x06]" "[10, 0x09, 0x50, 0x69, 0x63, 0x6F, 0x57, 0x2D, 0x42, 0x4C, 0x45]"]
  have "5 \<notin> set (list_of_dlist (connections ?s2))"
    and "stack_calls (trace ?s2) = stack_calls (trace ?s1) @ [Gap_advertise (Some 100) (Some [0x02, 0x01, 0x06])
            (Some [10, 0x09, 0x50, 0x69, 0x63, 0x6F, 0x57, 0x2D, 0x42, 0x4C, 0x45])]"
    using f(1) b by (simp_all add: conn_cb_ok_def)
  with m f show ?thesis
    by (cases "list_of_dlist (connections ?s2)") auto
qed

subsection \<open>Stopping\<close>




end
